theory Spec2Isabelle
  imports Complex_Main
begin

section \<open>The ML load-prediction service\<close>

text \<open>
  A shallow embedding of \<^verbatim>\<open>ml-service/app.py\<close> (the serving API) and
  \<^verbatim>\<open>ml-service/generate_data.py\<close> (the workload simulator).

  Conventions of the embedding:
  \<^item> Python and numpy floats are modelled as mathematical reals, so float rounding error
    is outside the model, and no identity that needs exact arithmetic is stated of a
    computed float. Python's \<^verbatim>\<open>round(x, n)\<close> is modelled as rounding half to even at
    \<open>n\<close> decimals; numpy's rounding of the average in \<^verbatim>\<open>get_metrics\<close> is a parameter.
  \<^item> Module globals are the fields of a state record that every endpoint takes and
    returns.
  \<^item> Exceptions are values of \<open>py_error\<close>; a fallible computation returns
    \<open>py_error + 'a\<close>.
  \<^item> Library objects are inputs of the model: the unpickled regressor and scaler are
    fallible functions, \<^verbatim>\<open>datetime.fromisoformat\<close> is a parameter, the wall clock is
    an argument and a seeded random generator is the sequence of variates it will deliver.
  \<^item> A request body is the parsed JSON object with its documented fields, each either
    absent or a value of its documented type (a string, a number, a list of numbers);
    \<open>None\<close> for the body stands for a request whose JSON could not be obtained.
  \<^item> The clock reading passed to the simulator is a datetime Python can represent.
  \<^item> Wall-clock \<^verbatim>\<open>timestamp\<close> fields of responses and all printing are left out.
\<close>

subsection \<open>Python and numpy primitives\<close>

datatype py_error =
    FileNotFoundError string
  | UnpicklingError
  | JSONDecodeError
  | ValueError
  | TypeError
  | AttributeError
  | KeyError string
  | OverflowError
  | LibraryError string

text \<open>\<^verbatim>\<open>round(x)\<close> on a float: to the nearest integer, ties to the even one.\<close>

definition py_round :: "real \<Rightarrow> int" where
  "py_round x =
     (let f = \<lfloor>x\<rfloor>; d = x - of_int f
      in if d < 1 / 2 then f else if 1 / 2 < d then f + 1 else if even f then f else f + 1)"

text \<open>\<^verbatim>\<open>round(x, ndigits)\<close>.\<close>

definition round_ndigits :: "real \<Rightarrow> nat \<Rightarrow> real" where
  "round_ndigits x ndigits = of_int (py_round (x * 10 ^ ndigits)) / 10 ^ ndigits"

text \<open>\<^verbatim>\<open>np.mean\<close> of a non-empty sequence (every call site guards the empty one).\<close>

definition np_mean :: "real list \<Rightarrow> real" where
  "np_mean xs = sum_list xs / of_nat (length xs)"

text \<open>The slice \<^verbatim>\<open>xs[-n:]\<close> for a positive \<open>n\<close>: the last \<open>n\<close> elements, all of a shorter list.\<close>

definition last_n :: "nat \<Rightarrow> 'a list \<Rightarrow> 'a list" where
  "last_n n xs = drop (length xs - n) xs"

text \<open>\<^verbatim>\<open>max(0, x)\<close>: Python returns the first argument unless the second is greater.\<close>

definition py_max0 :: "real \<Rightarrow> real" where
  "py_max0 x = (if 0 < x then x else 0)"

subsection \<open>Naive datetimes\<close>

text \<open>
  A \<^verbatim>\<open>datetime\<close> is the number of microseconds since 0001-01-01T00:00:00 (the day
  of proleptic Gregorian ordinal 1, a Monday). Python's datetimes cover the years 1 to
  9999 and raise \<^verbatim>\<open>OverflowError\<close> outside.
\<close>

type_synonym datetime = int

definition us_per_hour :: int where
  "us_per_hour = 3600000000"

definition us_per_day :: int where
  "us_per_day = 86400000000"

definition max_ordinal :: int where
  "max_ordinal = 3652059"

definition valid_datetime :: "datetime \<Rightarrow> bool" where
  "valid_datetime dt = (0 \<le> dt \<and> dt < max_ordinal * us_per_day)"

definition toordinal :: "datetime \<Rightarrow> int" where
  "toordinal dt = dt div us_per_day + 1"

definition hour_of :: "datetime \<Rightarrow> int" where
  "hour_of dt = (dt div us_per_hour) mod 24"

definition weekday_of :: "datetime \<Rightarrow> int" where
  "weekday_of dt = (toordinal dt + 6) mod 7"

definition is_leap :: "int \<Rightarrow> bool" where
  "is_leap year = (year mod 4 = 0 \<and> (if year mod 100 = 0 then year mod 400 = 0 else True))"

definition DAYS_BEFORE_MONTH :: "int list" where
  "DAYS_BEFORE_MONTH = [-1, 0, 31, 59, 90, 120, 151, 181, 212, 243, 273, 304, 334]"

definition DAYS_IN_MONTH :: "int list" where
  "DAYS_IN_MONTH = [-1, 31, 28, 31, 30, 31, 30, 31, 31, 30, 31, 30, 31]"

definition days_before_year :: "int \<Rightarrow> int" where
  "days_before_year year = (let y = year - 1 in y * 365 + y div 4 - y div 100 + y div 400)"

definition days_before_month :: "int \<Rightarrow> int \<Rightarrow> int" where
  "days_before_month year mon =
     DAYS_BEFORE_MONTH ! nat mon + (if 2 < mon \<and> is_leap year then 1 else 0)"

definition ymd2ord :: "int \<Rightarrow> int \<Rightarrow> int \<Rightarrow> int" where
  "ymd2ord year mon day = days_before_year year + days_before_month year mon + day"

text \<open>The (year, month, day) of an ordinal, as CPython's \<^verbatim>\<open>_ord2ymd\<close> computes it.\<close>

definition ord2ymd :: "int \<Rightarrow> int \<times> int \<times> int" where
  "ord2ymd ordinal =
     (let n0 = ordinal - 1;
          n400 = n0 div 146097; n1 = n0 mod 146097;
          n100 = n1 div 36524; n2 = n1 mod 36524;
          n4 = n2 div 1461; n3 = n2 mod 1461;
          n1y = n3 div 365; n = n3 mod 365;
          year = n400 * 400 + 1 + n100 * 100 + n4 * 4 + n1y
      in if n1y = 4 \<or> n100 = 4 then (year - 1, 12, 31)
         else
           let leapyear = (n1y = 3 \<and> (if n4 = 24 then n100 = 3 else True));
               mon = (n + 50) div 32;
               preceding = DAYS_BEFORE_MONTH ! nat mon + (if 2 < mon \<and> leapyear then 1 else 0)
           in if n < preceding
              then
                let mon' = mon - 1;
                    preceding' = preceding -
                      (DAYS_IN_MONTH ! nat mon' + (if mon' = 2 \<and> leapyear then 1 else 0))
                in (year, mon', n - preceding' + 1)
              else (year, mon, n - preceding + 1))"

definition month_of :: "datetime \<Rightarrow> int" where
  "month_of dt = fst (snd (ord2ymd (toordinal dt)))"

text \<open>The constructor \<^verbatim>\<open>datetime(year, month, day, hour, minute, second)\<close>.\<close>

definition mk_datetime :: "int \<Rightarrow> int \<Rightarrow> int \<Rightarrow> int \<Rightarrow> int \<Rightarrow> int \<Rightarrow> datetime" where
  "mk_datetime year mon day hh mm ss =
     (((ymd2ord year mon day - 1) * 24 + hh) * 60 + mm) * 60000000 + ss * 1000000"

subsection \<open>\<^verbatim>\<open>app.py\<close>: state, requests and responses\<close>

text \<open>
  The metadata document written by the training script: the \<^verbatim>\<open>metrics\<close> object and
  the optional \<^verbatim>\<open>timestamp\<close> key. \<open>None\<close> for the global \<^verbatim>\<open>model_metadata\<close>
  is Python's \<^verbatim>\<open>None\<close> (any falsy value).
\<close>

record metadata =
  md_timestamp :: "string option"
  rmse :: real
  mae :: real
  r2 :: real

type_synonym regressor = "real list \<Rightarrow> py_error + real"
type_synonym transformer = "real list \<Rightarrow> py_error + real list"

text \<open>A parsed JSON value, an object as the list of its items.\<close>

datatype json =
    JNull
  | JBool bool
  | JNumber real
  | JString string
  | JArray "json list"
  | JObject "(string \<times> json) list"

text \<open>
  The module globals of \<^verbatim>\<open>app.py\<close>. The global \<^verbatim>\<open>model_metadata\<close> holds the parsed
  metadata document: \<^verbatim>\<open>load_model\<close> stores whatever JSON value the file held (type
  \<open>json\<close>), and the endpoints that read it are modelled for the document of the training
  script (type \<open>metadata\<close>).
\<close>

record 'md app_state =
  model :: "regressor option"
  scaler :: "transformer option"
  model_metadata :: "'md option"
  prediction_count :: nat
  prediction_errors :: "real list"

definition initial_state :: "'md app_state" where
  "initial_state =
     \<lparr>model = None, scaler = None, model_metadata = None,
      prediction_count = 0, prediction_errors = []\<rparr>"

datatype message = Text string | Str py_error

text \<open>
  An HTTP response: the 200 payload, or the \<^verbatim>\<open>error\<close> text of a 400 or a 500 (the
  latter with its optional \<^verbatim>\<open>message\<close> field).
\<close>

datatype 'a response =
    Response200 'a
  | Response400 string
  | Response500 message "message option"

subsection \<open>\<^verbatim>\<open>load_model\<close> and the \<^verbatim>\<open>__main__\<close> block\<close>

text \<open>
  A file of the working directory: missing, present but raising the given exception when
  it is read, or read as the given value.
\<close>

datatype 'a artifact = Missing | Corrupt py_error | Present 'a

text \<open>The three files \<^verbatim>\<open>load_model\<close> reads.\<close>

record artifacts =
  model_pkl :: "regressor artifact"
  scaler_pkl :: "transformer artifact"
  model_metadata_json :: "json artifact"

text \<open>\<^verbatim>\<open>doc[key]\<close> for a string key: only an object can be indexed by it.\<close>

definition json_getitem :: "json \<Rightarrow> string \<Rightarrow> py_error + json" where
  "json_getitem doc key =
     (case doc of
        JObject items \<Rightarrow>
          (case map_of items key of Some v \<Rightarrow> Inr v | None \<Rightarrow> Inl (KeyError key))
      | _ \<Rightarrow> Inl TypeError)"

text \<open>The format \<^verbatim>\<open>{v:.2f}\<close>: numbers and booleans format, a string or anything else raises.\<close>

definition format_2f :: "json \<Rightarrow> py_error + unit" where
  "format_2f v =
     (case v of
        JNumber x \<Rightarrow> Inr ()
      | JBool b \<Rightarrow> Inr ()
      | JString t \<Rightarrow> Inl ValueError
      | _ \<Rightarrow> Inl TypeError)"

text \<open>Line 63: the message that prints \<^verbatim>\<open>model_metadata['metrics']['rmse']\<close>.\<close>

definition print_rmse :: "json \<Rightarrow> py_error + unit" where
  "print_rmse doc =
     (case json_getitem doc ''metrics'' of
        Inl e \<Rightarrow> Inl e
      | Inr ms \<Rightarrow>
          (case json_getitem ms ''rmse'' of
             Inl e \<Rightarrow> Inl e
           | Inr v \<Rightarrow> format_2f v))"

text \<open>Line 65: the metadata taken when there is no metadata file.\<close>

definition default_metadata :: json where
  "default_metadata =
     JObject [(''metrics'',
       JObject [(''rmse'', JNumber 0), (''mae'', JNumber 0), (''r2'', JNumber 0)])]"

text \<open>
  \<^verbatim>\<open>load_model\<close>: the returned flag and the globals as the call leaves them. Each global
  is assigned as soon as its file is read, so a load that fails later keeps the earlier
  assignments; the metadata global is assigned before the message about it is printed.
\<close>

definition load_model :: "artifacts \<Rightarrow> json app_state \<Rightarrow> bool \<times> json app_state" where
  "load_model files s =
     (case model_pkl files of
        Missing \<Rightarrow> (False, s)
      | Corrupt e \<Rightarrow> (False, s)
      | Present m \<Rightarrow>
          let s1 = s\<lparr>model := Some m\<rparr> in
          (case scaler_pkl files of
             Missing \<Rightarrow> (False, s1)
           | Corrupt e \<Rightarrow> (False, s1)
           | Present sc \<Rightarrow>
               let s2 = s1\<lparr>scaler := Some sc\<rparr> in
               (case model_metadata_json files of
                  Present doc \<Rightarrow>
                    let s3 = s2\<lparr>model_metadata :=
                               (case doc of JNull \<Rightarrow> None | _ \<Rightarrow> Some doc)\<rparr>
                    in (case print_rmse doc of
                          Inl e \<Rightarrow> (False, s3)
                        | Inr u \<Rightarrow> (True, s3))
                | Missing \<Rightarrow> (True, s2\<lparr>model_metadata := Some default_metadata\<rparr>)
                | Corrupt e \<Rightarrow> (False, s2))))"




subsection \<open>\<^verbatim>\<open>extract_features\<close>\<close>

text \<open>\<^verbatim>\<open>current_time.replace('Z', '+00:00')\<close>.\<close>

definition replace_Z :: "string \<Rightarrow> string" where
  "replace_Z current_time =
     concat (map (\<lambda>c. if c = CHR ''Z'' then ''+00:00'' else [c]) current_time)"

definition extract_features ::
  "(string \<Rightarrow> py_error + datetime) \<Rightarrow> string \<Rightarrow> real \<Rightarrow> real list \<Rightarrow> py_error + real list" where
  "extract_features fromisoformat current_time current_load historical_loads =
     (case fromisoformat (replace_Z current_time) of
        Inl e \<Rightarrow> Inl e
      | Inr dt \<Rightarrow>
          let hour_of_day = hour_of dt;
              day_of_week = weekday_of dt;
              mon = month_of dt;
              is_weekend = (if 5 \<le> day_of_week then 1 else 0 :: int);
              is_business_hours = (if 9 \<le> hour_of_day \<and> hour_of_day < 17 then 1 else 0 :: int);
              load_1h_ago =
                (if 1 \<le> length historical_loads then last historical_loads else current_load);
              load_24h_ago = current_load;
              avg_load_last_7d =
                (if historical_loads \<noteq> [] then np_mean historical_loads else current_load)
          in Inr [of_int hour_of_day, of_int day_of_week, of_int mon, of_int is_weekend,
                  of_int is_business_hours, load_1h_ago, load_24h_ago, avg_load_last_7d])"

subsection \<open>\<^verbatim>\<open>calculate_confidence_interval\<close>\<close>

text \<open>The first argument is the global \<^verbatim>\<open>model_metadata\<close> the function reads.\<close>

definition stored_rmse :: "metadata option \<Rightarrow> real" where
  "stored_rmse md = (case md of Some d \<Rightarrow> rmse d | None \<Rightarrow> 50)"

definition margin :: "metadata option \<Rightarrow> real \<Rightarrow> real" where
  "margin md confidence =
     (if 95 / 100 \<le> confidence then 2 * stored_rmse md else 15 / 10 * stored_rmse md)"

definition calculate_confidence_interval :: "metadata option \<Rightarrow> real \<Rightarrow> real \<Rightarrow> real \<times> real" where
  "calculate_confidence_interval md prediction confidence =
     (let lower = py_max0 (prediction - margin md confidence);
          upper = prediction + margin md confidence
      in (lower, upper))"

subsection \<open>\<^verbatim>\<open>health_check\<close> and \<^verbatim>\<open>get_metrics\<close>\<close>



record metrics =
  predictions_served :: nat
  avg_error :: real
  model_version :: string
  model_rmse :: real
  model_r2 :: real

text \<open>
  \<^verbatim>\<open>get_metrics\<close>. The average is \<^verbatim>\<open>np.mean\<close> of the error list, a numpy float, and
  \<^verbatim>\<open>round(avg_error, 2)\<close> is then numpy's rounding, whose last digit depends on the
  binary value: it is the parameter \<open>np_round\<close>. For an empty list the average is the
  integer 0, which \<^verbatim>\<open>round\<close> returns as it is.
\<close>

definition get_metrics :: "(real \<Rightarrow> nat \<Rightarrow> real) \<Rightarrow> metadata app_state \<Rightarrow> metrics" where
  "get_metrics np_round s =
     (let rounded =
            (if prediction_errors s \<noteq> [] then np_round (np_mean (prediction_errors s)) 2
             else 0)
      in \<lparr>predictions_served = prediction_count s,
          avg_error = rounded,
          model_version =
            (case model_metadata s of
               Some d \<Rightarrow> (case md_timestamp d of Some t \<Rightarrow> t | None \<Rightarrow> ''v1.0'')
             | None \<Rightarrow> ''v1.0''),
          model_rmse = (case model_metadata s of Some d \<Rightarrow> rmse d | None \<Rightarrow> 0),
          model_r2 = (case model_metadata s of Some d \<Rightarrow> r2 d | None \<Rightarrow> 0)\<rparr>)"

subsection \<open>\<^verbatim>\<open>predict\<close>\<close>

record predict_request =
  req_current_time :: "string option"
  req_current_load :: "real option"
  req_historical_loads :: "real list option"

record prediction =
  resp_predicted_load :: real
  confidence_lower :: real
  confidence_upper :: real
  prediction_horizon :: string
  model_accuracy :: real

definition required_fields :: "string list" where
  "required_fields = [''current_time'', ''current_load'', ''historical_loads'']"

text \<open>\<^verbatim>\<open>field in data\<close>.\<close>

definition has_field :: "predict_request \<Rightarrow> string \<Rightarrow> bool" where
  "has_field data field =
     (if field = ''current_time'' then req_current_time data \<noteq> None
      else if field = ''current_load'' then req_current_load data \<noteq> None
      else if field = ''historical_loads'' then req_historical_loads data \<noteq> None
      else False)"

text \<open>The validation loop: the first field of the list that the request lacks.\<close>

fun missing_field :: "string list \<Rightarrow> predict_request \<Rightarrow> string option" where
  "missing_field [] data = None"
| "missing_field (field # rest) data =
     (if \<not> has_field data field then Some field else missing_field rest data)"

text \<open>\<^verbatim>\<open>data[key]\<close>.\<close>

definition getitem :: "'a option \<Rightarrow> string \<Rightarrow> py_error + 'a" where
  "getitem v key = (case v of Some x \<Rightarrow> Inr x | None \<Rightarrow> Inl (KeyError key))"

text \<open>Lines 218 to 229: extraction, scaling and inference, the first exception ending it.\<close>

definition infer ::
  "(string \<Rightarrow> py_error + datetime) \<Rightarrow> regressor \<Rightarrow> transformer \<Rightarrow> predict_request \<Rightarrow> py_error + real" where
  "infer fromisoformat m sc data =
     (case getitem (req_current_time data) ''current_time'' of
        Inl e \<Rightarrow> Inl e
      | Inr current_time \<Rightarrow>
     (case getitem (req_current_load data) ''current_load'' of
        Inl e \<Rightarrow> Inl e
      | Inr current_load \<Rightarrow>
     (case getitem (req_historical_loads data) ''historical_loads'' of
        Inl e \<Rightarrow> Inl e
      | Inr historical_loads \<Rightarrow>
     (case extract_features fromisoformat current_time current_load historical_loads of
        Inl e \<Rightarrow> Inl e
      | Inr features \<Rightarrow>
     (case sc features of
        Inl e \<Rightarrow> Inl e
      | Inr features_scaled \<Rightarrow> m features_scaled)))))"

definition predict ::
  "(string \<Rightarrow> py_error + datetime) \<Rightarrow> metadata app_state \<Rightarrow> predict_request option \<Rightarrow>
     prediction response \<times> metadata app_state" where
  "predict fromisoformat s body =
     (case (model s, scaler s) of
        (Some m, Some sc) \<Rightarrow>
          (case body of
             None \<Rightarrow> (Response500 (Text ''Prediction failed'') (Some (Str TypeError)), s)
           | Some data \<Rightarrow>
               (case missing_field required_fields data of
                  Some field \<Rightarrow> (Response400 (''Missing required field: '' @ field), s)
                | None \<Rightarrow>
                    (case infer fromisoformat m sc data of
                       Inl e \<Rightarrow> (Response500 (Text ''Prediction failed'') (Some (Str e)), s)
                     | Inr predicted_load \<Rightarrow>
                         let (lower, upper) =
                               calculate_confidence_interval (model_metadata s) predicted_load (95 / 100);
                             s' = s\<lparr>prediction_count := prediction_count s + 1\<rparr>
                         in (Response200
                               \<lparr>resp_predicted_load = round_ndigits predicted_load 2,
                                confidence_lower = round_ndigits lower 2,
                                confidence_upper = round_ndigits upper 2,
                                prediction_horizon = ''30_minutes'',
                                model_accuracy =
                                  (case model_metadata s of
                                     Some d \<Rightarrow> round_ndigits (r2 d) 4
                                   | None \<Rightarrow> 89 / 100)\<rparr>, s'))))
      | _ \<Rightarrow>
          (Response500 (Text ''Model not loaded'')
             (Some (Text ''Please run train_model.py first'')), s))"

subsection \<open>\<^verbatim>\<open>record_actual\<close>\<close>

record record_request =
  predicted_load :: "real option"
  actual_load :: "real option"

record recorded =
  rec_status :: string
  rec_error :: real

definition record_actual ::
  "metadata app_state \<Rightarrow> record_request option \<Rightarrow> recorded response \<times> metadata app_state" where
  "record_actual s body =
     (case body of
        None \<Rightarrow> (Response500 (Str AttributeError) None, s)
      | Some data \<Rightarrow>
          (case (predicted_load data, actual_load data) of
             (Some predicted, Some actual) \<Rightarrow>
               let error = \<bar>predicted - actual\<bar>;
                   appended = prediction_errors s @ [error];
                   kept = (if 1000 < length appended then last_n 1000 appended else appended)
               in (Response200 \<lparr>rec_status = ''recorded'', rec_error = round_ndigits error 2\<rparr>,
                   s\<lparr>prediction_errors := kept\<rparr>)
           | _ \<Rightarrow> (Response400 ''Missing predicted_load or actual_load'', s)))"

text \<open>A sequence of \<^verbatim>\<open>record_actual\<close> calls, each on the state the previous one left.\<close>

fun record_all :: "metadata app_state \<Rightarrow> record_request option list \<Rightarrow> metadata app_state" where
  "record_all s [] = s"
| "record_all s (body # bodies) = record_all (snd (record_actual s body)) bodies"


subsection \<open>\<^verbatim>\<open>generate_data.py\<close>: the seeded random generators\<close>

text \<open>
  A seeded generator is the sequence of uniform variates in \<open>[0, 1)\<close> that it will deliver;
  drawing takes the first and leaves the rest. The module seeds numpy's generator and
  Python's own, both with 42, when it is loaded.
\<close>

type_synonym rng = "nat \<Rightarrow> real"

record generators =
  np_rng :: rng
  py_rng :: rng

definition next_double :: "rng \<Rightarrow> real \<times> rng" where
  "next_double g = (g 0, \<lambda>n. g (Suc n))"

text \<open>\<^verbatim>\<open>np.random.uniform(low, high)\<close>.\<close>

definition np_random_uniform :: "real \<Rightarrow> real \<Rightarrow> rng \<Rightarrow> real \<times> rng" where
  "np_random_uniform low high g = (let (u, g') = next_double g in (low + (high - low) * u, g'))"

text \<open>\<^verbatim>\<open>random.random()\<close> and \<^verbatim>\<open>random.uniform(a, b)\<close>.\<close>

definition random_random :: "rng \<Rightarrow> real \<times> rng" where
  "random_random g = next_double g"

definition random_uniform :: "real \<Rightarrow> real \<Rightarrow> rng \<Rightarrow> real \<times> rng" where
  "random_uniform a b g = (let (u, g') = next_double g in (a + (b - a) * u, g'))"

subsection \<open>\<^verbatim>\<open>generate_data.py\<close>: the hourly load\<close>

definition generate_base_load :: "int \<Rightarrow> int \<Rightarrow> bool \<Rightarrow> bool \<Rightarrow> rng \<Rightarrow> real \<times> rng" where
  "generate_base_load hour dow weekend business_hours g =
     (let (base, g') =
            (if hour < 6 \<or> 22 \<le> hour then np_random_uniform 50 100 g
             else if hour < 9 then np_random_uniform 200 400 g
             else if business_hours then
               (if hour = 12 then np_random_uniform 1100 1300 g
                else np_random_uniform 500 1000 g)
             else np_random_uniform 150 350 g)
      in (if weekend then base * (3 / 10) else base, g'))"

definition add_noise :: "real \<Rightarrow> real \<Rightarrow> rng \<Rightarrow> real \<times> rng" where
  "add_noise v noise_percent g =
     (let (u, g') = np_random_uniform (- noise_percent) noise_percent g;
          noise = u / 100
      in (v * (1 + noise), g'))"

definition should_spike :: "real \<Rightarrow> rng \<Rightarrow> bool \<times> rng" where
  "should_spike probability g = (let (u, g') = random_random g in (u < probability, g'))"

text \<open>A row of the data frame as the loop appends it.\<close>

record load_row =
  timestamp :: datetime
  hour_of_day :: int
  day_of_week :: int
  month :: int
  is_weekend :: int
  is_business_hours :: int
  current_load :: real

text \<open>The body of the loop over the hours, for the hour that starts at \<open>current_date\<close>.\<close>

definition simulate_hour :: "datetime \<Rightarrow> datetime \<Rightarrow> generators \<Rightarrow> load_row \<times> generators" where
  "simulate_hour start_date current_date gens =
     (let hour = hour_of current_date;
          dow = weekday_of current_date;
          mon = month_of current_date;
          weekend = (5 \<le> dow);
          business_hours = (9 \<le> hour \<and> hour < 17);
          months_elapsed = of_int ((current_date - start_date) div us_per_day) / 30;
          growth_factor = 1 + 5 / 100 * months_elapsed;
          (base_load, np1) = generate_base_load hour dow weekend business_hours (np_rng gens);
          grown = base_load * growth_factor;
          (noisy, np2) = add_noise grown 20 np1;
          (spike, py1) = should_spike (2 / 100) (py_rng gens);
          (spiked, py2) =
            (if spike then (let (factor, py') = random_uniform 3 5 py1 in (noisy * factor, py'))
             else (noisy, py1));
          load = py_max0 spiked
      in (\<lparr>timestamp = current_date, hour_of_day = hour, day_of_week = dow, month = mon,
           is_weekend = (if weekend then 1 else 0),
           is_business_hours = (if business_hours then 1 else 0),
           current_load = round_ndigits load 2\<rparr>,
          \<lparr>np_rng = np2, py_rng = py2\<rparr>))"

text \<open>
  \<^verbatim>\<open>for i in range(total_hours)\<close>: the rows of the remaining hours, the generators
  threaded through, \<open>current_date\<close> advanced by one hour per round.
\<close>

fun hourly_loop :: "nat \<Rightarrow> datetime \<Rightarrow> datetime \<Rightarrow> generators \<Rightarrow> load_row list \<times> generators" where
  "hourly_loop 0 start_date current_date gens = ([], gens)"
| "hourly_loop (Suc n) start_date current_date gens =
     (let (row, gens1) = simulate_hour start_date current_date gens;
          (rows, gens2) = hourly_loop n start_date (current_date + us_per_hour) gens1
      in (row # rows, gens2))"

subsection \<open>\<^verbatim>\<open>generate_data.py\<close>: lagged features\<close>

text \<open>
  A float column of a data frame, \<open>None\<close> for NaN. \<^verbatim>\<open>shift(periods)\<close> moves the values
  down and fills the head with NaN; \<^verbatim>\<open>rolling(window, min_periods=1).mean()\<close> is, at
  each index, the mean of the values that are not NaN among the last \<open>window\<close> entries up
  to and including that index, and NaN when there is none.
\<close>

definition shift :: "nat \<Rightarrow> real option list \<Rightarrow> real option list" where
  "shift periods column = take (length column) (replicate periods None @ column)"

definition rolling_mean :: "nat \<Rightarrow> real option list \<Rightarrow> real option list" where
  "rolling_mean window column =
     map (\<lambda>i. let observed =
                  List.map_filter id (take (min window (Suc i)) (drop (Suc i - window) column))
               in if observed = [] then None else Some (np_mean observed))
         [0..<length column]"

record training_row = load_row +
  load_1h_ago :: real
  load_24h_ago :: real
  avg_load_last_7d :: real

text \<open>\<^verbatim>\<open>dropna()\<close>: the rows none of whose lag columns is NaN.\<close>

definition dropna ::
  "(load_row \<times> real option \<times> real option \<times> real option) list \<Rightarrow> training_row list" where
  "dropna frame =
     List.map_filter
       (\<lambda>(row, lag1, lag24, avg).
          case (lag1, lag24, avg) of
            (Some a, Some b, Some c) \<Rightarrow>
              Some (load_row.extend row
                      \<lparr>load_1h_ago = a, load_24h_ago = b, avg_load_last_7d = c\<rparr>)
          | _ \<Rightarrow> None)
       frame"

text \<open>Lines 145 to 152: the three lag columns, then \<^verbatim>\<open>dropna\<close>.\<close>

definition lag_features :: "load_row list \<Rightarrow> training_row list" where
  "lag_features df =
     (let loads = map (\<lambda>row. Some (current_load row)) df;
          lag1 = shift 1 loads;
          lag24 = shift 24 loads;
          avg = rolling_mean (24 * 7) (shift 1 loads)
      in dropna (zip df (zip lag1 (zip lag24 avg))))"

text \<open>
  \<^verbatim>\<open>generate_training_data(months)\<close>, run when the clock reads \<open>now\<close>. A start date
  outside the years 1 to 9999 raises; without rows the frame has no
  \<^verbatim>\<open>current_load\<close> column and the lookup raises.
\<close>

definition generate_training_data ::
  "datetime \<Rightarrow> int \<Rightarrow> generators \<Rightarrow> (py_error + training_row list) \<times> generators" where
  "generate_training_data now months gens =
     (let start_date = now - us_per_day * (30 * months)
      in if \<not> valid_datetime start_date then (Inl OverflowError, gens)
         else
           let total_hours = 24 * 30 * months;
               (rows, gens') = hourly_loop (nat total_hours) start_date start_date gens
           in if rows = [] then (Inl (KeyError ''current_load''), gens')
              else (Inr (lag_features rows), gens'))"

text \<open>
  Row \<open>i\<close> of a frame with its lags read from the rows before it: the load one row
  back, the load 24 rows back, and the mean load of the up to 168 rows that precede it.
\<close>

definition lagged :: "load_row list \<Rightarrow> nat \<Rightarrow> training_row" where
  "lagged df i =
     load_row.extend (df ! i)
       \<lparr>load_1h_ago = current_load (df ! (i - 1)),
        load_24h_ago = current_load (df ! (i - 24)),
        avg_load_last_7d = np_mean (map current_load (drop (i - 168) (take i df)))\<rparr>"

subsection \<open>Example inputs\<close>

text \<open>
  The stubs of the specification's example: a regressor that returns 820, an identity
  scaler, metadata with an RMSE of 20, and a parser that knows one timestamp.
\<close>

definition stub_fromisoformat :: "string \<Rightarrow> py_error + datetime" where
  "stub_fromisoformat text =
     (if text = ''2024-01-07T14:30:00'' then Inr (mk_datetime 2024 1 7 14 30 0)
      else Inl ValueError)"

definition stub_model :: regressor where
  "stub_model features = Inr 820"

definition stub_scaler :: transformer where
  "stub_scaler features = Inr features"

definition failing_scaler :: transformer where
  "failing_scaler features = Inl (LibraryError ''scaler'')"

definition failing_model :: regressor where
  "failing_model features = Inl (LibraryError ''model'')"

definition stub_metadata :: metadata where
  "stub_metadata = \<lparr>md_timestamp = Some ''20240107_143000'', rmse = 20, mae = 15, r2 = 89 / 100\<rparr>"


definition ready_state :: "metadata app_state" where
  "ready_state =
     \<lparr>model = Some stub_model, scaler = Some stub_scaler, model_metadata = Some stub_metadata,
      prediction_count = 0, prediction_errors = []\<rparr>"

definition example_request :: predict_request where
  "example_request =
     \<lparr>req_current_time = Some ''2024-01-07T14:30:00'', req_current_load = Some 750,
      req_historical_loads = Some [650, 700, 720, 745]\<rparr>"

text \<open>A generator that always delivers one half, and the pair of two of them.\<close>

definition constant_rng :: rng where
  "constant_rng n = 1 / 2"

definition example_generators :: generators where
  "example_generators = \<lparr>np_rng = constant_rng, py_rng = constant_rng\<rparr>"

text \<open>A frame of 26 hourly rows whose load is the row's index.\<close>

definition example_frame :: "load_row list" where
  "example_frame =
     map (\<lambda>i. \<lparr>timestamp = int i * us_per_hour, hour_of_day = int i mod 24, day_of_week = 0,
               month = 1, is_weekend = 0, is_business_hours = 0, current_load = of_nat i\<rparr>)
         [0..<26]"

section \<open>Auxiliary facts\<close>

subsection \<open>Rounding, slices and the error window\<close>

lemma round_ndigits_int: "round_ndigits (of_int k) n = of_int k"
proof -
  have "(of_int k :: real) * 10 ^ n = of_int (k * 10 ^ n)" by simp
  then have "py_round (of_int k * 10 ^ n) = k * 10 ^ n"
    unfolding py_round_def Let_def by (simp del: of_int_mult of_int_power)
  then show ?thesis by (simp add: round_ndigits_def)
qed









subsection \<open>Feature extraction and the predict endpoint\<close>

lemma extract_features_parsed:
  assumes "fromisoformat (replace_Z stamp) = Inr dt"
  shows "extract_features fromisoformat stamp load history =
      Inr [of_int (hour_of dt), of_int (weekday_of dt), of_int (month_of dt),
           (if 5 \<le> weekday_of dt then 1 else 0),
           (if 9 \<le> hour_of dt \<and> hour_of dt < 17 then 1 else 0),
           (if history = [] then load else last history),
           load,
           (if history = [] then load else sum_list history / of_nat (length history))]"
  using assms by (cases history) (simp_all add: extract_features_def Let_def np_mean_def)

lemma stub_parse:
  "stub_fromisoformat (replace_Z ''2024-01-07T14:30:00'') = Inr (mk_datetime 2024 1 7 14 30 0)"
  by (simp add: replace_Z_def stub_fromisoformat_def)

lemma stub_calendar:
  "hour_of (mk_datetime 2024 1 7 14 30 0) = 14"
  "weekday_of (mk_datetime 2024 1 7 14 30 0) = 6"
  "month_of (mk_datetime 2024 1 7 14 30 0) = 1"
  by code_simp+

lemma features_example:
  "extract_features stub_fromisoformat ''2024-01-07T14:30:00'' 750 [650, 700, 720, 745] =
      Inr [14, 6, 1, 1, 1, 745, 750, 2815 / 4]"
  using extract_features_parsed [of stub_fromisoformat "''2024-01-07T14:30:00''"
      "mk_datetime 2024 1 7 14 30 0" 750 "[650, 700, 720, 745]", OF stub_parse]
  by (simp add: stub_calendar)

lemma missing_field_required:
  "missing_field required_fields data =
     (if req_current_time data = None then Some ''current_time''
      else if req_current_load data = None then Some ''current_load''
      else if req_historical_loads data = None then Some ''historical_loads''
      else None)"
  by (simp add: required_fields_def has_field_def)

lemma infer_all_present:
  "infer f m sc \<lparr>req_current_time = Some stamp, req_current_load = Some load,
                   req_historical_loads = Some history\<rparr> =
     (case extract_features f stamp load history of
        Inl e \<Rightarrow> Inl e
      | Inr features \<Rightarrow>
          (case sc features of Inl e \<Rightarrow> Inl e | Inr features_scaled \<Rightarrow> m features_scaled))"
  by (simp add: infer_def getitem_def)

lemma predict_infer:
  assumes "model s = Some m" and "scaler s = Some sc"
    and "missing_field required_fields data = None"
  shows "predict f s (Some data) =
     (case infer f m sc data of
        Inl e \<Rightarrow> (Response500 (Text ''Prediction failed'') (Some (Str e)), s)
      | Inr y \<Rightarrow>
          (Response200
             \<lparr>resp_predicted_load = round_ndigits y 2,
              confidence_lower =
                round_ndigits (fst (calculate_confidence_interval (model_metadata s) y (95 / 100))) 2,
              confidence_upper =
                round_ndigits (snd (calculate_confidence_interval (model_metadata s) y (95 / 100))) 2,
              prediction_horizon = ''30_minutes'',
              model_accuracy =
                (case model_metadata s of Some d \<Rightarrow> round_ndigits (r2 d) 4 | None \<Rightarrow> 89 / 100)\<rparr>,
           s\<lparr>prediction_count := prediction_count s + 1\<rparr>))"
  using assms by (simp add: predict_def Let_def split: sum.splits prod.splits)

lemma predict_counter_cases:
  "prediction_count (snd (predict f s body)) = prediction_count s
   \<or> (\<exists>m sc data y. model s = Some m \<and> scaler s = Some sc \<and> body = Some data
         \<and> infer f m sc data = Inr y
         \<and> prediction_count (snd (predict f s body)) = prediction_count s + 1)"
  by (auto simp: predict_def Let_def split: option.splits sum.splits prod.splits)

lemma stub_interval:
  "calculate_confidence_interval (Some stub_metadata) 820 (95 / 100) = (780, 860)"
  by (simp add: calculate_confidence_interval_def margin_def stored_rmse_def py_max0_def
      stub_metadata_def)

lemma predict_stub_run:
  "predict stub_fromisoformat ready_state (Some example_request) =
     (Response200 \<lparr>resp_predicted_load = 820, confidence_lower = 780, confidence_upper = 860,
        prediction_horizon = ''30_minutes'', model_accuracy = 89 / 100\<rparr>,
      ready_state\<lparr>prediction_count := 1\<rparr>)"
proof -
  have loaded: "model ready_state = Some stub_model" "scaler ready_state = Some stub_scaler"
    by (simp_all add: ready_state_def)
  have complete: "missing_field required_fields example_request = None"
    by (simp add: missing_field_required example_request_def)
  have inferred: "infer stub_fromisoformat stub_model stub_scaler example_request = Inr 820"
    by (simp add: example_request_def infer_all_present features_example stub_scaler_def
        stub_model_def)
  have md: "model_metadata ready_state = Some stub_metadata"
    by (simp add: ready_state_def)
  have r820: "round_ndigits 820 2 = 820" using round_ndigits_int [of 820 2] by simp
  have r780: "round_ndigits 780 2 = 780" using round_ndigits_int [of 780 2] by simp
  have r860: "round_ndigits 860 2 = 860" using round_ndigits_int [of 860 2] by simp
  have r89: "round_ndigits (r2 stub_metadata) 4 = 89 / 100"
    by (simp add: round_ndigits_def py_round_def stub_metadata_def)
  show ?thesis
    unfolding predict_infer [OF loaded complete] inferred sum.case md stub_interval
    by (simp add: r820 r780 r860 r89) (simp add: ready_state_def)
qed

subsection \<open>The simulator's loop and its lag columns\<close>

lemma simulate_hour_timestamp:
  "timestamp (fst (simulate_hour start_date current_date gens)) = current_date"
  by (simp add: simulate_hour_def Let_def split: prod.splits)

lemma hourly_loop_Suc:
  "fst (hourly_loop (Suc n) start_date current_date gens) =
     fst (simulate_hour start_date current_date gens)
       # fst (hourly_loop n start_date (current_date + us_per_hour)
               (snd (simulate_hour start_date current_date gens)))"
  by (simp add: Let_def case_prod_beta)

lemma hourly_loop_length: "length (fst (hourly_loop n start_date current_date gens)) = n"
proof (induction n arbitrary: current_date gens)
  case 0
  show ?case by simp
next
  case (Suc n)
  show ?case unfolding hourly_loop_Suc by (simp add: Suc)
qed

lemma hourly_loop_timestamp:
  "i < n \<Longrightarrow>
   timestamp (fst (hourly_loop n start_date current_date gens) ! i)
     = current_date + int i * us_per_hour"
proof (induction n arbitrary: current_date gens i)
  case 0
  then show ?case by simp
next
  case (Suc n)
  show ?case
  proof (cases i)
    case 0
    then show ?thesis unfolding hourly_loop_Suc by (simp add: simulate_hour_timestamp)
  next
    case (Suc j)
    then have "j < n" using Suc.prems by simp
    from Suc.IH [OF this]
    show ?thesis unfolding hourly_loop_Suc by (simp add: Suc algebra_simps)
  qed
qed

lemma length_shift: "length (shift k xs) = length xs"
  by (simp add: shift_def)

lemma shift_nth:
  "i < length xs \<Longrightarrow> shift k xs ! i = (if i < k then None else xs ! (i - k))"
  by (simp add: shift_def nth_append)

lemma length_rolling_mean: "length (rolling_mean w xs) = length xs"
  by (simp add: rolling_mean_def)

lemma map_filter_id_Some: "List.map_filter id (map Some xs) = xs"
  by (induction xs) simp_all

lemma shift_1_Some:
  "xs \<noteq> [] \<Longrightarrow> shift 1 (map Some xs) = None # map Some (butlast xs)"
  by (cases xs rule: rev_cases) (simp_all add: shift_def)

lemma window_of_shifted:
  assumes "0 < w" and "i \<le> length ys"
  shows "List.map_filter id (take (min w (Suc i)) (drop (Suc i - w) (None # map Some ys)))
           = drop (i - w) (take i ys)"
proof (cases "Suc i \<le> w")
  case True
  then have "min w (Suc i) = Suc i" "Suc i - w = 0" "i - w = 0" by simp_all
  then show ?thesis
    by (simp add: take_map map_filter_id_Some)
next
  case False
  then have w: "w \<le> i" by simp
  then have eqs: "min w (Suc i) = w" "Suc i - w = Suc (i - w)" by simp_all
  have "List.map_filter id (take w (drop (i - w) (map Some ys))) = take w (drop (i - w) ys)"
    by (simp add: take_map drop_map map_filter_id_Some)
  moreover have "drop (i - w) (take i ys) = take w (drop (i - w) ys)"
    using w by (simp add: drop_take)
  ultimately show ?thesis by (simp add: eqs)
qed

lemma filter_upt_from: "filter (\<lambda>i. k \<le> i) [0..<n] = [k..<n]"
proof (induction n)
  case 0
  show ?case by simp
next
  case (Suc n)
  then show ?case by (cases "k \<le> n") (simp_all add: upt_rec [of k "Suc n"] upt_conv_Cons)
qed

lemma map_filter_from:
  "List.map_filter (\<lambda>i. if i < k then None else Some (h i)) [0..<n] = map h [k..<n]"
proof -
  have "filter (\<lambda>i. (if i < k then None else Some (h i)) \<noteq> None) [0..<n]
          = filter (\<lambda>i. k \<le> i) [0..<n]"
    by (rule filter_cong) auto
  then show ?thesis
    by (simp add: List.map_filter_def filter_upt_from)
qed

lemma map_filter_cong_set:
  "(\<And>x. x \<in> set xs \<Longrightarrow> f x = g x) \<Longrightarrow> List.map_filter f xs = List.map_filter g xs"
  by (induction xs) (simp_all split: option.splits)

lemma rolling_nth:
  assumes "i < length df"
  shows "rolling_mean (24 * 7) (shift 1 (map (\<lambda>row. Some (current_load row)) df)) ! i =
     (if i = 0 then None
      else Some (np_mean (map current_load (drop (i - 168) (take i df)))))"
proof -
  let ?loads = "map current_load df"
  have ne: "?loads \<noteq> []" using assms by auto
  have shifted:
    "shift 1 (map (\<lambda>row. Some (current_load row)) df) = None # map Some (butlast ?loads)"
    using shift_1_Some [OF ne] by (simp add: comp_def)
  have len: "i \<le> length (butlast ?loads)" using assms by simp
  have window: "List.map_filter id
          (take (min 168 (Suc i)) (drop (Suc i - 168) (None # map Some (butlast ?loads))))
        = drop (i - 168) (take i (butlast ?loads))"
    by (rule window_of_shifted) (use len in simp_all)
  have "take i (butlast ?loads) = take i ?loads"
    using assms by (auto simp: butlast_conv_take min_def)
  then have obs: "drop (i - 168) (take i (butlast ?loads))
      = map current_load (drop (i - 168) (take i df))"
    by (simp add: take_map drop_map)
  have empty: "(map current_load (drop (i - 168) (take i df)) = []) = (i = 0)"
    using assms by auto
  have "rolling_mean (24 * 7) (None # map Some (butlast ?loads)) ! i =
      (let observed = List.map_filter id
          (take (min 168 (Suc i)) (drop (Suc i - 168) (None # map Some (butlast ?loads))))
       in if observed = [] then None else Some (np_mean observed))"
    using assms unfolding rolling_mean_def by (simp del: upt_Suc)
  then show ?thesis
    unfolding shifted window obs Let_def using empty by simp
qed

lemma lag_features_rows: "lag_features df = map (lagged df) [24..<length df]"
proof -
  let ?n = "length df"
  let ?loads = "map (\<lambda>row. Some (current_load row)) df"
  let ?lag1 = "shift 1 ?loads"
  let ?lag24 = "shift 24 ?loads"
  let ?avg = "rolling_mean (24 * 7) (shift 1 ?loads)"
  let ?frame = "zip df (zip ?lag1 (zip ?lag24 ?avg))"
  let ?keep = "\<lambda>(row, lag1, lag24, avg).
          case (lag1, lag24, avg) of
            (Some a, Some b, Some c) \<Rightarrow>
              Some (load_row.extend row
                      \<lparr>load_1h_ago = a, load_24h_ago = b, avg_load_last_7d = c\<rparr>)
          | _ \<Rightarrow> None"
  have len: "length ?frame = ?n"
    by (simp add: length_shift length_rolling_mean)
  have nth: "?frame ! i = (df ! i, ?lag1 ! i, ?lag24 ! i, ?avg ! i)" if "i < ?n" for i
    using that by (simp add: length_shift length_rolling_mean)
  have frame: "?frame = map (\<lambda>i. ?frame ! i) [0..<?n]"
    using len by (metis map_nth)
  have keep: "?keep (?frame ! i) = (if i < 24 then None else Some (lagged df i))"
    if "i < ?n" for i
  proof -
    have l1: "?lag1 ! i = (if i < 1 then None else Some (current_load (df ! (i - 1))))"
      using that by (simp add: shift_nth)
    have l24: "?lag24 ! i = (if i < 24 then None else Some (current_load (df ! (i - 24))))"
      using that by (simp add: shift_nth)
    show ?thesis
      unfolding nth [OF that] l1 l24 rolling_nth [OF that]
      by (simp add: lagged_def)
  qed
  have "dropna ?frame = List.map_filter ?keep (map (\<lambda>i. ?frame ! i) [0..<?n])"
    unfolding dropna_def using frame by simp
  also have "\<dots> = List.map_filter (\<lambda>i. ?keep (?frame ! i)) [0..<?n]"
    by (simp add: List.map_filter_def comp_def filter_map)
  also have "\<dots> = List.map_filter (\<lambda>i. if i < 24 then None else Some (lagged df i)) [0..<?n]"
    by (rule map_filter_cong_set) (use keep in simp)
  also have "\<dots> = map (lagged df) [24..<?n]"
    by (rule map_filter_from)
  finally show ?thesis by (simp add: lag_features_def Let_def)
qed

lemma lagged_base: "load_row.truncate (lagged df i) = df ! i"
  by (simp add: lagged_def load_row.truncate_def load_row.extend_def)

lemma lagged_timestamp: "timestamp (lagged df i) = timestamp (df ! i)"
  by (simp add: lagged_def load_row.extend_def)

lemma generate_training_data_rows:
  assumes "0 < months" and "valid_datetime (now - us_per_day * (30 * months))"
  shows "fst (generate_training_data now months gens) =
     Inr (lag_features (fst (hourly_loop (nat (24 * 30 * months))
            (now - us_per_day * (30 * months)) (now - us_per_day * (30 * months)) gens)))"
proof -
  let ?start = "now - us_per_day * (30 * months)"
  let ?rows = "fst (hourly_loop (nat (24 * 30 * months)) ?start ?start gens)"
  have "length ?rows = nat (24 * 30 * months)" by (rule hourly_loop_length)
  then have "?rows \<noteq> []" using assms(1) by auto
  then show ?thesis
    using assms(2) by (simp add: generate_training_data_def Let_def case_prod_beta)
qed

lemma generate_training_data_timestamps:
  assumes "0 < months" and "valid_datetime (now - us_per_day * (30 * months))"
  shows "\<exists>rows. fst (generate_training_data now months gens) = Inr rows
      \<and> length rows = nat (720 * months) - 24
      \<and> (\<forall>k < length rows.
           timestamp (rows ! k)
             = now - us_per_day * (30 * months) + int (k + 24) * us_per_hour)"
proof -
  let ?start = "now - us_per_day * (30 * months)"
  let ?n = "nat (24 * 30 * months)"
  let ?rows = "fst (hourly_loop ?n ?start ?start gens)"
  have out: "fst (generate_training_data now months gens) = Inr (lag_features ?rows)"
    by (rule generate_training_data_rows [OF assms])
  have l: "length (lag_features ?rows) = nat (720 * months) - 24"
    by (simp add: lag_features_rows hourly_loop_length)
  have t: "timestamp (lag_features ?rows ! k) = ?start + int (k + 24) * us_per_hour"
    if "k < length (lag_features ?rows)" for k
  proof -
    have k: "k + 24 < ?n" using that by (simp add: lag_features_rows hourly_loop_length)
    then have "lag_features ?rows ! k = lagged ?rows (24 + k)"
      by (simp add: lag_features_rows hourly_loop_length)
    then show ?thesis
      using hourly_loop_timestamp [OF k, of ?start ?start gens]
      by (simp add: lagged_timestamp add.commute)
  qed
  from out l t show ?thesis by blast
qed

lemma runs_equal_iff:
  assumes "0 < months"
    and "valid_datetime (now1 - us_per_day * (30 * months))"
    and "valid_datetime (now2 - us_per_day * (30 * months))"
  shows "fst (generate_training_data now1 months gens)
           = fst (generate_training_data now2 months gens)
         \<longleftrightarrow> now1 = now2"
proof
  assume eq: "fst (generate_training_data now1 months gens)
                = fst (generate_training_data now2 months gens)"
  obtain rows1 where r1: "fst (generate_training_data now1 months gens) = Inr rows1"
      "length rows1 = nat (720 * months) - 24"
      "\<forall>k < length rows1. timestamp (rows1 ! k)
          = now1 - us_per_day * (30 * months) + int (k + 24) * us_per_hour"
    using generate_training_data_timestamps [OF assms(1,2)] by blast
  obtain rows2 where r2: "fst (generate_training_data now2 months gens) = Inr rows2"
      "length rows2 = nat (720 * months) - 24"
      "\<forall>k < length rows2. timestamp (rows2 ! k)
          = now2 - us_per_day * (30 * months) + int (k + 24) * us_per_hour"
    using generate_training_data_timestamps [OF assms(1,3)] by blast
  have same: "rows1 = rows2" using eq r1(1) r2(1) by simp
  have pos: "0 < length rows1" using r1(2) assms(1) by simp
  have "timestamp (rows1 ! 0) = now1 - us_per_day * (30 * months) + int (0 + 24) * us_per_hour"
    using r1(3) pos by blast
  moreover have "timestamp (rows2 ! 0)
      = now2 - us_per_day * (30 * months) + int (0 + 24) * us_per_hour"
    using r2(3) pos same by blast
  ultimately show "now1 = now2" using same by simp
next
  assume "now1 = now2"
  then show "fst (generate_training_data now1 months gens)
      = fst (generate_training_data now2 months gens)"
    by simp
qed

lemma example_clock:
  "valid_datetime (mk_datetime 2026 11 4 12 0 0 - us_per_day * (30 * 6))"
  "valid_datetime (mk_datetime 2026 11 4 13 0 0 - us_per_day * (30 * 6))"
  "mk_datetime 2026 11 4 12 0 0 \<noteq> mk_datetime 2026 11 4 13 0 0"
  by code_simp+

subsection \<open>Loading and the artifacts\<close>


text \<open>
  A metadata file that parses but has no \<open>metrics\<close> object: the load fails at the printed
  message, after all three globals were assigned.
\<close>

lemma load_model_keeps_assignments:
  "load_model
     \<lparr>model_pkl = Present m, scaler_pkl = Present sc,
      model_metadata_json = Present (JObject [(''timestamp'', JString ''v2'')])\<rparr> initial_state
   = (False,
      \<lparr>model = Some m, scaler = Some sc,
       model_metadata = Some (JObject [(''timestamp'', JString ''v2'')]),
       prediction_count = 0, prediction_errors = []\<rparr>)"
  by (simp add: load_model_def initial_state_def Let_def print_rmse_def json_getitem_def)

lemma load_model_without_scaler:
  "load_model \<lparr>model_pkl = Present m, scaler_pkl = Missing, model_metadata_json = doc\<rparr>
     initial_state
   = (False,
      \<lparr>model = Some m, scaler = None, model_metadata = None,
       prediction_count = 0, prediction_errors = []\<rparr>)"
  by (simp add: load_model_def initial_state_def Let_def)



section \<open>The claims\<close>

subsection \<open>Recording an outcome\<close>

text \<open>
  Claim C1, as amended. A \<^verbatim>\<open>record_actual\<close> call that carries both loads answers
  with the rounded absolute error and appends the absolute error \<open>|predicted - actual|\<close>
  to the error list, of which the last 1000 entries are kept; that call leaves the lifetime
  prediction counter as it was. The counter belongs to \<^verbatim>\<open>predict\<close>: a call of
  \<^verbatim>\<open>predict\<close> that returns a prediction raises it by one and leaves the error list
  alone.
\<close>

theorem record_actual_appends_error:
  "record_actual s (Some \<lparr>predicted_load = Some p, actual_load = Some a\<rparr>) =
     (Response200 \<lparr>rec_status = ''recorded'', rec_error = round_ndigits \<bar>p - a\<bar> 2\<rparr>,
      s\<lparr>prediction_errors := last_n 1000 (prediction_errors s @ [\<bar>p - a\<bar>])\<rparr>)
   \<and> prediction_count
        (snd (record_actual s (Some \<lparr>predicted_load = Some p, actual_load = Some a\<rparr>)))
       = prediction_count s
   \<and> (\<forall>r s'. predict f s body = (Response200 r, s') \<longrightarrow>
         prediction_count s' = prediction_count s + 1
         \<and> prediction_errors s' = prediction_errors s)"
  by (auto simp: record_actual_def predict_def Let_def last_n_def
      split: option.splits sum.splits prod.splits)

theorem record_actual_appends_error_witness:
  "record_actual ready_state (Some \<lparr>predicted_load = Some 820, actual_load = Some 805\<rparr>) =
     (Response200 \<lparr>rec_status = ''recorded'', rec_error = 15\<rparr>,
      ready_state\<lparr>prediction_errors := [15]\<rparr>)
   \<and> prediction_count
        (snd (record_actual ready_state
                (Some \<lparr>predicted_load = Some 820, actual_load = Some 805\<rparr>))) = 0
   \<and> prediction_count (snd (predict stub_fromisoformat ready_state (Some example_request))) = 1"
proof -
  have r15: "round_ndigits 15 2 = 15" using round_ndigits_int [of 15 2] by simp
  have empty: "prediction_errors ready_state = []" "prediction_count ready_state = 0"
    by (simp_all add: ready_state_def)
  show ?thesis
    using record_actual_appends_error
      [of ready_state 820 805 stub_fromisoformat "Some example_request"]
    by (simp add: predict_stub_run r15 empty last_n_def)
qed

text \<open>
  The claim as written has the recording call itself raise the counter; on the fresh
  service it does not.
\<close>

theorem record_actual_counter_counterexample:
  "prediction_count
     (snd (record_actual initial_state
             (Some \<lparr>predicted_load = Some 820, actual_load = Some 805\<rparr>)))
     \<noteq> prediction_count (initial_state :: metadata app_state) + 1"
  by (simp add: record_actual_def initial_state_def Let_def)

subsection \<open>Determinism of the simulator\<close>

text \<open>
  Claim C2, as amended. The series is a function of the seeded generators, of
  \<open>months\<close> and of the clock reading from which the start date is taken: for
  \<open>months \<ge> 1\<close> the run returns \<open>720 * months - 24\<close> rows, row \<open>k\<close> stamped
  \<open>now - 30 * months\<close> days \<open>+ (k + 24)\<close> hours, and two runs from the same seed with the
  same \<open>months\<close> return the same series exactly when they read the same clock.
\<close>

theorem generate_training_data_same_clock:
  assumes "0 < months"
    and "valid_datetime (now1 - us_per_day * (30 * months))"
    and "valid_datetime (now2 - us_per_day * (30 * months))"
  shows "(fst (generate_training_data now1 months gens)
            = fst (generate_training_data now2 months gens)) = (now1 = now2)
     \<and> (\<exists>rows. fst (generate_training_data now1 months gens) = Inr rows
           \<and> length rows = nat (720 * months) - 24
           \<and> (\<forall>k < length rows.
                timestamp (rows ! k)
                  = now1 - us_per_day * (30 * months) + int (k + 24) * us_per_hour))"
  using runs_equal_iff [OF assms] generate_training_data_timestamps [OF assms(1,2)]
  by blast

theorem generate_training_data_same_clock_witness:
  "(0 :: int) < 6
   \<and> valid_datetime (mk_datetime 2026 11 4 12 0 0 - us_per_day * (30 * 6))
   \<and> valid_datetime (mk_datetime 2026 11 4 13 0 0 - us_per_day * (30 * 6))
   \<and> (fst (generate_training_data (mk_datetime 2026 11 4 12 0 0) 6 example_generators)
        = fst (generate_training_data (mk_datetime 2026 11 4 13 0 0) 6 example_generators))
      = (mk_datetime 2026 11 4 12 0 0 = mk_datetime 2026 11 4 13 0 0)"
proof -
  have months: "(0 :: int) < 6" by simp
  have runs:
    "(fst (generate_training_data (mk_datetime 2026 11 4 12 0 0) 6 example_generators)
        = fst (generate_training_data (mk_datetime 2026 11 4 13 0 0) 6 example_generators))
      = (mk_datetime 2026 11 4 12 0 0 = mk_datetime 2026 11 4 13 0 0)"
    using generate_training_data_same_clock
      [OF months example_clock(1) example_clock(2), of example_generators]
    by (rule conjunct1)
  show ?thesis
    by (intro conjI months example_clock(1) example_clock(2) runs)
qed

text \<open>
  The claim as written: seed 42 and \<open>months = 6\<close> twice give the same series. Two such
  runs started an hour apart do not.
\<close>

theorem generate_training_data_clock_counterexample:
  "fst (generate_training_data (mk_datetime 2026 11 4 12 0 0) 6 example_generators)
     \<noteq> fst (generate_training_data (mk_datetime 2026 11 4 13 0 0) 6 example_generators)"
proof -
  have months: "(0 :: int) < 6" by simp
  from runs_equal_iff [OF months example_clock(1) example_clock(2)] example_clock(3)
  show ?thesis by simp
qed

subsection \<open>The confidence interval\<close>

text \<open>
  Claim C3. With metadata loaded, the margin is twice the stored RMSE for a confidence
  level of at least 0.95 and one and a half times it otherwise; the interval is
  \<open>(max 0 (prediction - margin), prediction + margin)\<close>, and its lower end is never
  negative.
\<close>

theorem calculate_confidence_interval_bounds:
  "margin (Some d) confidence
     = (if 95 / 100 \<le> confidence then 2 * rmse d else 15 / 10 * rmse d)
   \<and> calculate_confidence_interval (Some d) prediction confidence
     = (max 0 (prediction - margin (Some d) confidence),
        prediction + margin (Some d) confidence)
   \<and> 0 \<le> fst (calculate_confidence_interval (Some d) prediction confidence)"
  by (simp add: calculate_confidence_interval_def margin_def stored_rmse_def py_max0_def
      max_def)

theorem calculate_confidence_interval_bounds_witness:
  "margin (Some stub_metadata) (95 / 100) = 40
   \<and> calculate_confidence_interval (Some stub_metadata) 820 (95 / 100) = (780, 860)
   \<and> 0 \<le> fst (calculate_confidence_interval (Some stub_metadata) 820 (95 / 100))"
  using calculate_confidence_interval_bounds [of stub_metadata "95 / 100" 820]
  by (simp add: stub_metadata_def)

text \<open>
  Claim C4, as amended. The width is not twice the margin for every prediction. When the
  prediction is at least the margin the interval is
  \<open>(prediction - margin, prediction + margin)\<close>, each end one operation on the prediction
  and the margin. When the prediction is below the margin the lower end is clamped to 0,
  the interval is \<open>(0, prediction + margin)\<close>, and its width \<open>upper - lower\<close> is the upper
  end \<open>prediction + margin\<close>.
\<close>

theorem confidence_interval_clamped:
  "(margin md confidence \<le> prediction \<longrightarrow>
      calculate_confidence_interval md prediction confidence
        = (prediction - margin md confidence, prediction + margin md confidence))
   \<and> (prediction < margin md confidence \<longrightarrow>
      calculate_confidence_interval md prediction confidence
        = (0, prediction + margin md confidence)
      \<and> snd (calculate_confidence_interval md prediction confidence)
          - fst (calculate_confidence_interval md prediction confidence)
        = prediction + margin md confidence)"
  by (simp add: calculate_confidence_interval_def py_max0_def)

theorem confidence_interval_clamped_witness:
  "margin (Some stub_metadata) (95 / 100) \<le> 820
   \<and> calculate_confidence_interval (Some stub_metadata) 820 (95 / 100) = (820 - 40, 820 + 40)
   \<and> 10 < margin (Some stub_metadata) (95 / 100)
   \<and> calculate_confidence_interval (Some stub_metadata) 10 (95 / 100) = (0, 10 + 40)
   \<and> snd (calculate_confidence_interval (Some stub_metadata) 10 (95 / 100))
        - fst (calculate_confidence_interval (Some stub_metadata) 10 (95 / 100)) = 10 + 40"
proof -
  have m: "margin (Some stub_metadata) (95 / 100) = 40"
    by (simp add: margin_def stored_rmse_def stub_metadata_def)
  note unclamped =
    confidence_interval_clamped [of "Some stub_metadata" "95 / 100" 820, unfolded m]
  note clamped =
    confidence_interval_clamped [of "Some stub_metadata" "95 / 100" 10, unfolded m]
  show ?thesis
    unfolding m using unclamped clamped by simp
qed

text \<open>
  The claim as written: the width is twice the margin for every prediction. With an RMSE
  of 20 and a prediction of 10 the interval is \<open>(0, 50)\<close>, and twice the margin is 80.
\<close>

theorem confidence_width_counterexample:
  "snd (calculate_confidence_interval (Some stub_metadata) 10 (95 / 100))
      - fst (calculate_confidence_interval (Some stub_metadata) 10 (95 / 100))
    \<noteq> 2 * margin (Some stub_metadata) (95 / 100)"
  by (simp add: calculate_confidence_interval_def py_max0_def margin_def stored_rmse_def
      stub_metadata_def)

subsection \<open>The accuracy window\<close>



subsection \<open>Feature extraction\<close>

text \<open>
  Claim C6. For a timestamp that \<^verbatim>\<open>fromisoformat\<close> accepts, extraction returns the
  eight features in their fixed order. With an empty history it still returns them, and
  \<open>load_1h_ago\<close> (the sixth) and \<open>avg_load_7d\<close> (the eighth) are the current load; for
  every history \<open>load_24h_ago\<close> (the seventh) is the current load; for a history that is
  not empty the sixth is its last element and the eighth its arithmetic mean.
\<close>

theorem extract_features_history:
  assumes "fromisoformat (replace_Z stamp) = Inr dt"
  shows "extract_features fromisoformat stamp load [] =
      Inr [of_int (hour_of dt), of_int (weekday_of dt), of_int (month_of dt),
           (if 5 \<le> weekday_of dt then 1 else 0),
           (if 9 \<le> hour_of dt \<and> hour_of dt < 17 then 1 else 0),
           load, load, load]
    \<and> (\<exists>features. extract_features fromisoformat stamp load history = Inr features
          \<and> length features = 8
          \<and> features ! 6 = load
          \<and> features ! 5 = (if history = [] then load else last history)
          \<and> features ! 7 =
              (if history = [] then load
               else sum_list history / of_nat (length history)))"
  by (simp add: extract_features_parsed [of fromisoformat stamp dt, OF assms])

theorem extract_features_history_witness:
  "stub_fromisoformat (replace_Z ''2024-01-07T14:30:00'') = Inr (mk_datetime 2024 1 7 14 30 0)
   \<and> extract_features stub_fromisoformat ''2024-01-07T14:30:00'' 750 [] =
       Inr [14, 6, 1, 1, 1, 750, 750, 750]"
  using extract_features_history
    [of stub_fromisoformat "''2024-01-07T14:30:00''" "mk_datetime 2024 1 7 14 30 0" 750 "[]",
     OF stub_parse]
  by (simp add: stub_parse stub_calendar)

subsection \<open>Lag features of the training output\<close>

text \<open>
  Claim C7. The training output of a frame is the frame without its first 24 rows. The row
  that was at index \<open>i \<ge> 24\<close> keeps its own columns, its \<open>load_1h_ago\<close> is the load of row
  \<open>i - 1\<close>, its \<open>load_24h_ago\<close> the load of row \<open>i - 24\<close>, and its \<open>avg_load_last_7d\<close> the
  mean of the loads of rows \<open>max 0 (i - 168)\<close> up to \<open>i - 1\<close>: only rows before \<open>i\<close>.
  A run of the simulator for \<open>months \<ge> 1\<close> returns exactly this output for the rows its
  loop appended.
\<close>

theorem lag_features_past_only:
  "length (lag_features df) = length df - 24
   \<and> (\<forall>k < length df - 24.
        load_row.truncate (lag_features df ! k) = df ! (k + 24)
      \<and> load_1h_ago (lag_features df ! k) = current_load (df ! (k + 24 - 1))
      \<and> load_24h_ago (lag_features df ! k) = current_load (df ! (k + 24 - 24))
      \<and> avg_load_last_7d (lag_features df ! k) =
          np_mean (map current_load (drop (k + 24 - 168) (take (k + 24) df))))
   \<and> (0 < months \<and> valid_datetime (now - us_per_day * (30 * months)) \<longrightarrow>
        fst (generate_training_data now months gens) =
          Inr (lag_features (fst (hourly_loop (nat (24 * 30 * months))
                 (now - us_per_day * (30 * months)) (now - us_per_day * (30 * months)) gens))))"
proof -
  have rows: "length (lag_features df) = length df - 24
   \<and> (\<forall>k < length df - 24.
        load_row.truncate (lag_features df ! k) = df ! (k + 24)
      \<and> load_1h_ago (lag_features df ! k) = current_load (df ! (k + 24 - 1))
      \<and> load_24h_ago (lag_features df ! k) = current_load (df ! (k + 24 - 24))
      \<and> avg_load_last_7d (lag_features df ! k) =
          np_mean (map current_load (drop (k + 24 - 168) (take (k + 24) df))))"
    unfolding lag_features_rows
    by (simp add: lagged_base add.commute)
       (simp add: lagged_def load_row.extend_def add.commute)
  then show ?thesis
    using generate_training_data_rows [of months now gens] by blast
qed

text \<open>
  On the 26-row example frame the output has two rows; the second is row 25 with the
  loads of rows 24 and 1 and the mean of rows 0 to 24. A six-month run returns the lag
  features of the rows its loop made.
\<close>

theorem lag_features_past_only_witness:
  "length (lag_features example_frame) = 2
   \<and> (1 :: nat) < length example_frame - 24
   \<and> load_row.truncate (lag_features example_frame ! 1) = example_frame ! 25
   \<and> load_1h_ago (lag_features example_frame ! 1) = 24
   \<and> load_24h_ago (lag_features example_frame ! 1) = 1
   \<and> avg_load_last_7d (lag_features example_frame ! 1) = 12
   \<and> (0 :: int) < 6
   \<and> valid_datetime (mk_datetime 2026 11 4 12 0 0 - us_per_day * (30 * 6))
   \<and> fst (generate_training_data (mk_datetime 2026 11 4 12 0 0) 6 example_generators) =
        Inr (lag_features (fst (hourly_loop (nat (24 * 30 * 6))
               (mk_datetime 2026 11 4 12 0 0 - us_per_day * (30 * 6))
               (mk_datetime 2026 11 4 12 0 0 - us_per_day * (30 * 6)) example_generators)))"
proof -
  have len: "length example_frame = 26"
    by (simp add: example_frame_def)
  have one: "(1 :: nat) < length example_frame - 24"
    by (simp add: len)
  have l1: "current_load (example_frame ! (1 + 24 - 1)) = 24"
    by (simp add: example_frame_def)
  have l24: "current_load (example_frame ! (1 + 24 - 24)) = 1"
    by (simp add: example_frame_def)
  have avg: "np_mean (map current_load (drop (1 + 24 - 168) (take (1 + 24) example_frame))) = 12"
    by code_simp
  have months: "(0 :: int) < 6" by simp
  note inst = lag_features_past_only
    [of example_frame 6 "mk_datetime 2026 11 4 12 0 0" example_generators]
  from inst have size: "length (lag_features example_frame) = length example_frame - 24"
    by (rule conjunct1)
  from inst have all: "\<forall>k < length example_frame - 24.
        load_row.truncate (lag_features example_frame ! k) = example_frame ! (k + 24)
      \<and> load_1h_ago (lag_features example_frame ! k) = current_load (example_frame ! (k + 24 - 1))
      \<and> load_24h_ago (lag_features example_frame ! k)
          = current_load (example_frame ! (k + 24 - 24))
      \<and> avg_load_last_7d (lag_features example_frame ! k) =
          np_mean (map current_load (drop (k + 24 - 168) (take (k + 24) example_frame)))"
    by (rule conjunct1 [OF conjunct2])
  from inst months example_clock(1) have run:
    "fst (generate_training_data (mk_datetime 2026 11 4 12 0 0) 6 example_generators) =
        Inr (lag_features (fst (hourly_loop (nat (24 * 30 * 6))
               (mk_datetime 2026 11 4 12 0 0 - us_per_day * (30 * 6))
               (mk_datetime 2026 11 4 12 0 0 - us_per_day * (30 * 6)) example_generators)))"
    by blast
  from all one have row:
    "load_row.truncate (lag_features example_frame ! 1) = example_frame ! (1 + 24)
      \<and> load_1h_ago (lag_features example_frame ! 1) = current_load (example_frame ! (1 + 24 - 1))
      \<and> load_24h_ago (lag_features example_frame ! 1)
          = current_load (example_frame ! (1 + 24 - 24))
      \<and> avg_load_last_7d (lag_features example_frame ! 1) =
          np_mean (map current_load (drop (1 + 24 - 168) (take (1 + 24) example_frame)))"
    by blast
  have first: "length (lag_features example_frame) = 2
   \<and> (1 :: nat) < length example_frame - 24
   \<and> load_row.truncate (lag_features example_frame ! 1) = example_frame ! 25
   \<and> load_1h_ago (lag_features example_frame ! 1) = 24
   \<and> load_24h_ago (lag_features example_frame ! 1) = 1
   \<and> avg_load_last_7d (lag_features example_frame ! 1) = 12"
    using row one size unfolding l1 l24 avg by (simp add: len)
  show ?thesis
    using first months example_clock(1) run by blast
qed

subsection \<open>Errors of the predict endpoint\<close>

text \<open>
  Claim C8, as amended. When the model and the scaler are loaded and the request carries a
  JSON object that lacks one of \<open>current_time\<close>, \<open>current_load\<close>, \<open>historical_loads\<close>,
  \<^verbatim>\<open>predict\<close> answers 400 with a message naming the first missing field in that order,
  produces no prediction and leaves the state, the counter included, unchanged. While the
  model or the scaler is not loaded, every request, whatever it carries, is answered with
  the 500 \<open>Model not loaded\<close> and the state unchanged.
\<close>

theorem predict_missing_field:
  "(model s = Some m \<and> scaler s = Some sc
      \<and> (req_current_time data = None \<or> req_current_load data = None
           \<or> req_historical_loads data = None) \<longrightarrow>
      predict fromisoformat s (Some data) =
        (Response400 (''Missing required field: '' @
           (if req_current_time data = None then ''current_time''
            else if req_current_load data = None then ''current_load''
            else ''historical_loads'')), s))
   \<and> (model s = None \<or> scaler s = None \<longrightarrow>
      predict fromisoformat s body =
        (Response500 (Text ''Model not loaded'')
           (Some (Text ''Please run train_model.py first'')), s))"
  by (auto simp: predict_def missing_field_required split: option.splits)

theorem predict_missing_field_witness:
  "model ready_state = Some stub_model \<and> scaler ready_state = Some stub_scaler
   \<and> predict stub_fromisoformat ready_state
       (Some \<lparr>req_current_time = Some ''2024-01-07T14:30:00'', req_current_load = None,
              req_historical_loads = Some [650, 700, 720, 745]\<rparr>)
     = (Response400 ''Missing required field: current_load'', ready_state)
   \<and> scaler (ready_state\<lparr>scaler := None\<rparr>) = None
   \<and> predict stub_fromisoformat (ready_state\<lparr>scaler := None\<rparr>) (Some example_request)
     = (Response500 (Text ''Model not loaded'')
          (Some (Text ''Please run train_model.py first'')), ready_state\<lparr>scaler := None\<rparr>)"
proof -
  have loaded: "model ready_state = Some stub_model" "scaler ready_state = Some stub_scaler"
    by (simp_all add: ready_state_def)
  have unloaded: "scaler (ready_state\<lparr>scaler := None\<rparr>) = None"
    by simp
  show ?thesis
    using predict_missing_field [of ready_state stub_model stub_scaler
        "\<lparr>req_current_time = Some ''2024-01-07T14:30:00'', req_current_load = None,
              req_historical_loads = Some [650, 700, 720, 745]\<rparr>" stub_fromisoformat]
      predict_missing_field [of "ready_state\<lparr>scaler := None\<rparr>" stub_model stub_scaler
        example_request stub_fromisoformat "Some example_request"]
    by (simp add: loaded)
qed

text \<open>
  The claim as written covers every request that lacks a field. Before the model is
  loaded the same request is answered 500, the fields never looked at.
\<close>

theorem predict_missing_field_unloaded_counterexample:
  "predict stub_fromisoformat initial_state
      (Some \<lparr>req_current_time = Some ''2024-01-07T14:30:00'', req_current_load = None,
             req_historical_loads = Some [650, 700, 720, 745]\<rparr>)
    = (Response500 (Text ''Model not loaded'') (Some (Text ''Please run train_model.py first'')),
       initial_state)"
  by (simp add: predict_def initial_state_def)

text \<open>
  Claim C10. With the model and the scaler loaded and all three fields present, an
  exception raised by feature extraction, by the scaler or by the regressor makes
  \<^verbatim>\<open>predict\<close> answer 500 with the state, and so the prediction counter, unchanged. For
  any request, a changed counter means that inference returned a value, and the counter
  then grew by exactly one.
\<close>

theorem predict_failure_keeps_count:
  assumes "model s = Some m" and "scaler s = Some sc"
    and "extract_features f stamp load history = Inl e
       \<or> (\<exists>x. extract_features f stamp load history = Inr x \<and> sc x = Inl e)
       \<or> (\<exists>x y. extract_features f stamp load history = Inr x \<and> sc x = Inr y \<and> m y = Inl e)"
  shows "predict f s (Some \<lparr>req_current_time = Some stamp, req_current_load = Some load,
                            req_historical_loads = Some history\<rparr>)
           = (Response500 (Text ''Prediction failed'') (Some (Str e)), s)
     \<and> (prediction_count (snd (predict f s body)) = prediction_count s
         \<or> (\<exists>m' sc' data y. model s = Some m' \<and> scaler s = Some sc' \<and> body = Some data
               \<and> infer f m' sc' data = Inr y
               \<and> prediction_count (snd (predict f s body)) = prediction_count s + 1))"
proof -
  let ?data = "\<lparr>req_current_time = Some stamp, req_current_load = Some load,
                 req_historical_loads = Some history\<rparr>"
  have complete: "missing_field required_fields ?data = None"
    by (simp add: missing_field_required)
  have "infer f m sc ?data = Inl e"
    using assms(3) by (auto simp: infer_all_present)
  then have "predict f s (Some ?data)
      = (Response500 (Text ''Prediction failed'') (Some (Str e)), s)"
    by (simp add: predict_infer [OF assms(1,2) complete])
  then show ?thesis
    using predict_counter_cases [of f s body] by blast
qed

text \<open>The specification's example request against a scaler that raises.\<close>

theorem predict_failure_keeps_count_witness:
  "scaler (ready_state\<lparr>scaler := Some failing_scaler\<rparr>) = Some failing_scaler
   \<and> failing_scaler [14, 6, 1, 1, 1, 745, 750, 2815 / 4] = Inl (LibraryError ''scaler'')
   \<and> predict stub_fromisoformat (ready_state\<lparr>scaler := Some failing_scaler\<rparr>)
       (Some \<lparr>req_current_time = Some ''2024-01-07T14:30:00'', req_current_load = Some 750,
              req_historical_loads = Some [650, 700, 720, 745]\<rparr>)
     = (Response500 (Text ''Prediction failed'') (Some (Str (LibraryError ''scaler''))),
        ready_state\<lparr>scaler := Some failing_scaler\<rparr>)"
proof -
  let ?s = "ready_state\<lparr>scaler := Some failing_scaler\<rparr>"
  have m: "model ?s = Some stub_model" and sc: "scaler ?s = Some failing_scaler"
    by (simp_all add: ready_state_def)
  have fails: "failing_scaler [14, 6, 1, 1, 1, 745, 750, 2815 / 4] = Inl (LibraryError ''scaler'')"
    by (simp add: failing_scaler_def)
  have raised:
    "extract_features stub_fromisoformat ''2024-01-07T14:30:00'' 750 [650, 700, 720, 745]
        = Inl (LibraryError ''scaler'')
     \<or> (\<exists>x. extract_features stub_fromisoformat ''2024-01-07T14:30:00'' 750 [650, 700, 720, 745]
               = Inr x \<and> failing_scaler x = Inl (LibraryError ''scaler''))
     \<or> (\<exists>x y. extract_features stub_fromisoformat ''2024-01-07T14:30:00'' 750 [650, 700, 720, 745]
               = Inr x \<and> failing_scaler x = Inr y \<and> stub_model y = Inl (LibraryError ''scaler''))"
    using features_example fails by blast
  from predict_failure_keeps_count [OF m sc raised]
  show ?thesis using sc fails by blast
qed

subsection \<open>Health and the model lifecycle\<close>



subsection \<open>Further properties\<close>

text \<open>
  The specification's example: the request of 14:30 on 2024-01-07 with a regressor that
  returns 820 and an RMSE of 20 is answered 820 with the interval from 780 to 860, and the
  counter goes from 0 to 1.
\<close>

theorem predict_specification_example:
  "predict stub_fromisoformat ready_state (Some example_request) =
     (Response200 \<lparr>resp_predicted_load = 820, confidence_lower = 780, confidence_upper = 860,
        prediction_horizon = ''30_minutes'', model_accuracy = 89 / 100\<rparr>,
      ready_state\<lparr>prediction_count := 1\<rparr>)"
  by (rule predict_stub_run)

text \<open>
  The counter that \<^verbatim>\<open>get_metrics\<close> reports as \<open>predictions_served\<close> is untouched by any
  sequence of \<^verbatim>\<open>record_actual\<close> calls, eviction included, and no \<^verbatim>\<open>predict\<close> call
  lowers it.
\<close>

theorem predictions_served_monotone:
  "predictions_served (get_metrics np_round (record_all s calls))
     = predictions_served (get_metrics np_round s)
   \<and> predictions_served (get_metrics np_round s)
       \<le> predictions_served (get_metrics np_round (snd (predict f s body)))"
proof -
  have step: "prediction_count (snd (record_actual t b)) = prediction_count t" for t b
    by (auto simp: record_actual_def Let_def split: option.splits)
  have "prediction_count (record_all s calls) = prediction_count s"
    by (induction calls arbitrary: s) (simp_all add: step)
  moreover have "prediction_count s \<le> prediction_count (snd (predict f s body))"
    using predict_counter_cases [of f s body] by auto
  ultimately show ?thesis by (simp add: get_metrics_def Let_def)
qed

text \<open>
  In the features, \<open>is_weekend\<close> is 1 exactly on Saturday and Sunday and
  \<open>is_business_hours\<close> is 1 exactly from 9 up to, not including, 17 o'clock.
\<close>

theorem extract_features_flags:
  "fromisoformat (replace_Z stamp) = Inr dt \<Longrightarrow>
   \<exists>features. extract_features fromisoformat stamp load history = Inr features
     \<and> (features ! 3 = 1 \<longleftrightarrow> weekday_of dt \<in> {5, 6})
     \<and> (features ! 3 = 0 \<longleftrightarrow> weekday_of dt \<notin> {5, 6})
     \<and> (features ! 4 = 1 \<longleftrightarrow> hour_of dt \<in> {9..<17})
     \<and> (features ! 4 = 0 \<longleftrightarrow> hour_of dt \<notin> {9..<17})"
proof -
  assume parsed: "fromisoformat (replace_Z stamp) = Inr dt"
  have "weekday_of dt < 7" by (simp add: weekday_of_def)
  then have "(5 \<le> weekday_of dt) = (weekday_of dt \<in> {5, 6})" by auto
  then show ?thesis
    by (simp add: extract_features_parsed [of fromisoformat stamp dt, OF parsed])
qed

theorem extract_features_flags_witness:
  "stub_fromisoformat (replace_Z ''2024-01-07T14:30:00'') = Inr (mk_datetime 2024 1 7 14 30 0)
   \<and> (\<exists>features.
        extract_features stub_fromisoformat ''2024-01-07T14:30:00'' 750 [650, 700, 720, 745]
          = Inr features
        \<and> features ! 3 = 1 \<and> features ! 4 = 1)"
  using extract_features_flags
    [of stub_fromisoformat "''2024-01-07T14:30:00''" "mk_datetime 2024 1 7 14 30 0" 750
        "[650, 700, 720, 745]", OF stub_parse]
  by (auto simp: stub_parse stub_calendar)

end
